theory Spec2Isabelle
  imports Main
begin

section \<open>Values, payloads and schemas\<close>

text \<open>
  The tub stores and emits untyped JavaScript values (\<^verbatim>\<open>any\<close>, \<^verbatim>\<open>JsonNestedSchema\<close>).
  \<^verbatim>\<open>undefined\<close> is a value of its own, distinct from \<^verbatim>\<open>null\<close>: the guards of the
  serialisers compare against it with \<^verbatim>\<open>===\<close>. Numbers are only stored and handed
  on, never computed with.
\<close>

datatype jsval =
    JUndefined
  | JNull
  | JBool bool
  | JNum int
  | JStr string
  | JArr "jsval list"
  | JObj "(string \<times> jsval) list"

text \<open>An object literal or a \<^verbatim>\<open>Record<string, unknown>\<close>: its properties in order.\<close>

type_synonym jsobject = "(string \<times> jsval) list"

text \<open>\<^verbatim>\<open>k in r\<close>\<close>

definition has_property :: "string \<Rightarrow> jsobject \<Rightarrow> bool" where
  "has_property k r = (map_of r k \<noteq> None)"

text \<open>\<^verbatim>\<open>r.k\<close>: reading a property that is not there gives \<^verbatim>\<open>undefined\<close>.\<close>

definition property :: "jsobject \<Rightarrow> string \<Rightarrow> jsval" where
  "property r k = (case map_of r k of None \<Rightarrow> JUndefined | Some v \<Rightarrow> v)"

text \<open>
  A \<^verbatim>\<open>ZodSchema\<close> comes from the zod library; the tub only calls its \<^verbatim>\<open>safeParse\<close>,
  which returns \<^verbatim>\<open>{success: true, data}\<close> or \<^verbatim>\<open>{success: false, error}\<close>. The schema
  is a parameter of the model: any function from a value to such a result.
\<close>

datatype SafeParseReturn = ParseSuccess jsval | ParseFailure

type_synonym ZodSchema = "jsval \<Rightarrow> SafeParseReturn"

definition safeParse :: "ZodSchema \<Rightarrow> jsval \<Rightarrow> SafeParseReturn" where
  "safeParse schema provided = schema provided"

text \<open>\<^verbatim>\<open>new Error(message)\<close>\<close>

datatype error = Error string

section \<open>The tub\<close>

text \<open>
  The fields of \<^verbatim>\<open>ResponseAreaTub\<close>. Optional fields (\<^verbatim>\<open>responseType?\<close>,
  \<^verbatim>\<open>configSchema?\<close>) are options. \<^verbatim>\<open>answerSchema\<close> is abstract in one form of the
  class and optional in the other; both test \<^verbatim>\<open>!this.answerSchema\<close> at run time, so it
  is an option as well. \<^verbatim>\<open>config\<close> and \<^verbatim>\<open>answer\<close> hold \<^verbatim>\<open>undefined\<close> until assigned.
\<close>

record ResponseAreaTub =
  responseType :: "string option"
  canToggleLatexInStats :: bool
  delegatePreResponseText :: bool
  delegatePostResponseText :: bool
  delegateLivePreview :: bool
  delegateFeedback :: bool
  delegateCheck :: bool
  delegateErrorMessage :: bool
  displayInFlexContainer :: bool
  displayWideInput :: bool
  displayAlwaysInColumn :: bool
  configSchema :: "ZodSchema option"
  config :: jsval
  answerSchema :: "ZodSchema option"
  answer :: jsval

text \<open>
  A method that mutates the tub and may throw returns its outcome together with the tub
  as the call leaves it: after a throw the tub is still there, with whatever had been
  assigned before the throw.
\<close>

type_synonym effect = "(error + unit) \<times> ResponseAreaTub"

definition extractConfig :: "jsval \<Rightarrow> ResponseAreaTub \<Rightarrow> effect" where
  "extractConfig provided this =
     (case configSchema this of
        None \<Rightarrow> (Inr (), this)
      | Some schema \<Rightarrow>
          (case safeParse schema provided of
             ParseFailure \<Rightarrow> (Inl (Error ''Could not extract config''), this)
           | ParseSuccess d \<Rightarrow> (Inr (), this\<lparr>config := d\<rparr>)))"

definition extractAnswer :: "jsval \<Rightarrow> ResponseAreaTub \<Rightarrow> effect" where
  "extractAnswer provided this =
     (case answerSchema this of
        None \<Rightarrow> (Inl (Error ''Not implemented''), this)
      | Some schema \<Rightarrow>
          (case safeParse schema provided of
             ParseFailure \<Rightarrow> (Inl (Error ''Could not extract answer''), this)
           | ParseSuccess d \<Rightarrow> (Inr (), this\<lparr>answer := d\<rparr>)))"

text \<open>Two statements in sequence: the second runs on the tub the first leaves, unless the first threw.\<close>

definition andThen :: "effect \<Rightarrow> (ResponseAreaTub \<Rightarrow> effect) \<Rightarrow> effect" where
  "andThen first second =
     (case first of
        (Inl e, this') \<Rightarrow> (Inl e, this')
      | (Inr u, this') \<Rightarrow> second this')"

definition initWithDefault :: "ResponseAreaTub \<Rightarrow> effect" where
  "initWithDefault this = (Inr (), this)"

definition initWithResponse :: "jsobject \<Rightarrow> ResponseAreaTub \<Rightarrow> effect" where
  "initWithResponse response this =
     andThen (extractConfig (property response ''config'') this)
             (extractAnswer (property response ''answer''))"

definition initWithStudentFragment :: "jsobject \<Rightarrow> ResponseAreaTub \<Rightarrow> effect" where
  "initWithStudentFragment studentFragment this =
     extractConfig (property studentFragment ''config'') this"

definition initWithTeacherFragment :: "jsobject \<Rightarrow> ResponseAreaTub \<Rightarrow> effect" where
  "initWithTeacherFragment teacherFragment this =
     andThen (extractConfig (property teacherFragment ''config'') this)
             (extractAnswer (property teacherFragment ''answer''))"

definition setAnswer :: "jsval \<Rightarrow> ResponseAreaTub \<Rightarrow> effect" where
  "setAnswer a this = extractAnswer a this"

text \<open>
  The serialisers read the tub and do not change it. \<^verbatim>\<open>!this.responseType\<close> holds of
  an optional string when it is \<^verbatim>\<open>undefined\<close> and when it is the empty string.
\<close>

definition toStudentFragment :: "ResponseAreaTub \<Rightarrow> error + jsval" where
  "toStudentFragment this =
     (case responseType this of
        None \<Rightarrow> Inl (Error ''Response type missing'')
      | Some rt \<Rightarrow>
          if rt = [] then Inl (Error ''Response type missing'')
          else Inr (JObj [(''__typename'', JStr ''StudentModularResponse''),
                          (''responseType'', JStr rt),
                          (''config'', config this)]))"

definition toTeacherFragment :: "ResponseAreaTub \<Rightarrow> error + jsval" where
  "toTeacherFragment this =
     (case responseType this of
        None \<Rightarrow> Inl (Error ''Response type missing'')
      | Some rt \<Rightarrow>
          if rt = [] then Inl (Error ''Response type missing'')
          else if answer this = JUndefined then Inl (Error ''Answer missing'')
          else Inr (JObj [(''__typename'', JStr ''TeacherModularResponse''),
                          (''responseType'', JStr rt),
                          (''config'', config this),
                          (''answer'', answer this)]))"

definition toResponse :: "ResponseAreaTub \<Rightarrow> error + jsval" where
  "toResponse this =
     (case responseType this of
        None \<Rightarrow> Inl (Error ''Response type missing'')
      | Some rt \<Rightarrow>
          if rt = [] then Inl (Error ''Response type missing'')
          else if answer this = JUndefined then Inl (Error ''Answer missing'')
          else Inr (JObj [(''responseType'', JStr rt),
                          (''config'', config this),
                          (''answer'', answer this)]))"

definition toResponseMutation :: "ResponseAreaTub \<Rightarrow> error + jsval" where
  "toResponseMutation this =
     (case responseType this of
        None \<Rightarrow> Inl (Error ''Response type missing'')
      | Some rt \<Rightarrow>
          if rt = [] then Inl (Error ''Response type missing'')
          else if answer this = JUndefined then Inl (Error ''Answer missing'')
          else Inr (JObj [(''responseInput'',
                           JObj [(''responseType'', JStr rt),
                                 (''config'', config this),
                                 (''answer'', answer this)])]))"

section \<open>The dispatcher\<close>

datatype displayMode = Normal | Peek

definition initialiseTub ::
  "ResponseAreaTub \<Rightarrow> jsobject option \<Rightarrow> displayMode \<Rightarrow> effect" where
  "initialiseTub tub response mode =
     (case response of
        None \<Rightarrow> initWithDefault tub
      | Some r \<Rightarrow>
          if mode = Peek then initWithDefault tub
          else if has_property ''__typename'' r
                  \<and> property r ''__typename'' = JStr ''TeacherModularResponse''
            then initWithTeacherFragment r tub
          else if has_property ''__typename'' r
                  \<and> property r ''__typename'' = JStr ''StudentModularResponse''
            then initWithStudentFragment r tub
          else initWithResponse r tub)"

section \<open>A newly constructed tub and some schemas\<close>

text \<open>
  The instance the constructor leaves, with the field initialisers of the class, for a
  concrete variant that declares the given response type and schemas and overrides no flag.
\<close>

definition newTub ::
  "string option \<Rightarrow> ZodSchema option \<Rightarrow> ZodSchema option \<Rightarrow> ResponseAreaTub" where
  "newTub rt cs as =
     \<lparr> responseType = rt,
       canToggleLatexInStats = False,
       delegatePreResponseText = True,
       delegatePostResponseText = True,
       delegateLivePreview = True,
       delegateFeedback = True,
       delegateCheck = True,
       delegateErrorMessage = True,
       displayInFlexContainer = True,
       displayWideInput = False,
       displayAlwaysInColumn = False,
       configSchema = cs,
       config = JUndefined,
       answerSchema = as,
       answer = JUndefined \<rparr>"

text \<open>
  Schemas a variant may declare, used as concrete inputs below: \<^verbatim>\<open>z.string()\<close>,
  \<^verbatim>\<open>z.string().optional()\<close>, \<^verbatim>\<open>z.null()\<close>, and \<^verbatim>\<open>z.object({})\<close>, which accepts any
  object and strips the keys it does not know.
\<close>

fun stringSchema :: ZodSchema where
  "stringSchema (JStr s) = ParseSuccess (JStr s)"
| "stringSchema v = ParseFailure"

fun optionalStringSchema :: ZodSchema where
  "optionalStringSchema (JStr s) = ParseSuccess (JStr s)"
| "optionalStringSchema JUndefined = ParseSuccess JUndefined"
| "optionalStringSchema v = ParseFailure"

fun nullSchema :: ZodSchema where
  "nullSchema JNull = ParseSuccess JNull"
| "nullSchema v = ParseFailure"

fun emptyObjectSchema :: ZodSchema where
  "emptyObjectSchema (JObj kvs) = ParseSuccess (JObj [])"
| "emptyObjectSchema v = ParseFailure"

text \<open>A text variant: config validated by \<^verbatim>\<open>z.object({})\<close>, answer by \<^verbatim>\<open>z.string()\<close>.\<close>

definition textTub :: ResponseAreaTub where
  "textTub = newTub (Some ''TEXT'') (Some emptyObjectSchema) (Some stringSchema)"

definition teacherPayload :: jsobject where
  "teacherPayload =
     [(''__typename'', JStr ''TeacherModularResponse''),
      (''responseType'', JStr ''TEXT''),
      (''config'', JObj [(''extra'', JBool True)]),
      (''answer'', JStr ''forty-two'')]"

definition studentPayload :: jsobject where
  "studentPayload =
     [(''__typename'', JStr ''StudentModularResponse''),
      (''responseType'', JStr ''TEXT''),
      (''config'', JObj [(''extra'', JBool True)])]"

definition genericPayload :: jsobject where
  "genericPayload =
     [(''responseType'', JStr ''TEXT''),
      (''config'', JObj [(''extra'', JBool True)]),
      (''answer'', JStr ''forty-two'')]"

section \<open>Schemas that keep state\<close>

text \<open>
  A zod schema may run code of the variant on each parse (a default or a transform given
  as a function), and that code may keep state between parses:
  \<^verbatim>\<open>z.object({ id: z.number().default(() => ++n) })\<close>. Above, a schema is a function of the
  provided value alone, which settles what a second parse of the same value returns. For
  what the initialisation paths do when they are run again, the class is modelled once more
  over schemas whose \<^verbatim>\<open>safeParse\<close> also reads and changes a state, the variables the
  schema's functions close over. The fields and the methods are those of the class, with
  that state passed along; a schema of the model above is one that leaves the state alone.
\<close>

type_synonym 's StatefulSchema = "jsval \<Rightarrow> 's \<Rightarrow> SafeParseReturn \<times> 's"

definition safeParse_st :: "'s StatefulSchema \<Rightarrow> jsval \<Rightarrow> 's \<Rightarrow> SafeParseReturn \<times> 's" where
  "safeParse_st schema provided \<sigma> = schema provided \<sigma>"

record 's StatefulTub =
  responseType_st :: "string option"
  canToggleLatexInStats_st :: bool
  delegatePreResponseText_st :: bool
  delegatePostResponseText_st :: bool
  delegateLivePreview_st :: bool
  delegateFeedback_st :: bool
  delegateCheck_st :: bool
  delegateErrorMessage_st :: bool
  displayInFlexContainer_st :: bool
  displayWideInput_st :: bool
  displayAlwaysInColumn_st :: bool
  configSchema_st :: "'s StatefulSchema option"
  config_st :: jsval
  answerSchema_st :: "'s StatefulSchema option"
  answer_st :: jsval

text \<open>The outcome of a call, the tub as the call leaves it, and the state of the schemas.\<close>

type_synonym 's effect_st = "((error + unit) \<times> 's StatefulTub) \<times> 's"

definition extractConfig_st :: "jsval \<Rightarrow> 's StatefulTub \<Rightarrow> 's \<Rightarrow> 's effect_st" where
  "extractConfig_st provided this \<sigma> =
     (case configSchema_st this of
        None \<Rightarrow> ((Inr (), this), \<sigma>)
      | Some schema \<Rightarrow>
          (case safeParse_st schema provided \<sigma> of
             (ParseFailure, \<sigma>') \<Rightarrow> ((Inl (Error ''Could not extract config''), this), \<sigma>')
           | (ParseSuccess d, \<sigma>') \<Rightarrow> ((Inr (), this\<lparr>config_st := d\<rparr>), \<sigma>')))"

definition extractAnswer_st :: "jsval \<Rightarrow> 's StatefulTub \<Rightarrow> 's \<Rightarrow> 's effect_st" where
  "extractAnswer_st provided this \<sigma> =
     (case answerSchema_st this of
        None \<Rightarrow> ((Inl (Error ''Not implemented''), this), \<sigma>)
      | Some schema \<Rightarrow>
          (case safeParse_st schema provided \<sigma> of
             (ParseFailure, \<sigma>') \<Rightarrow> ((Inl (Error ''Could not extract answer''), this), \<sigma>')
           | (ParseSuccess d, \<sigma>') \<Rightarrow> ((Inr (), this\<lparr>answer_st := d\<rparr>), \<sigma>')))"

definition andThen_st ::
  "'s effect_st \<Rightarrow> ('s StatefulTub \<Rightarrow> 's \<Rightarrow> 's effect_st) \<Rightarrow> 's effect_st" where
  "andThen_st first second =
     (case first of
        ((Inl e, this'), \<sigma>') \<Rightarrow> ((Inl e, this'), \<sigma>')
      | ((Inr u, this'), \<sigma>') \<Rightarrow> second this' \<sigma>')"

definition initWithDefault_st :: "'s StatefulTub \<Rightarrow> 's \<Rightarrow> 's effect_st" where
  "initWithDefault_st this \<sigma> = ((Inr (), this), \<sigma>)"

definition initWithResponse_st :: "jsobject \<Rightarrow> 's StatefulTub \<Rightarrow> 's \<Rightarrow> 's effect_st" where
  "initWithResponse_st response this \<sigma> =
     andThen_st (extractConfig_st (property response ''config'') this \<sigma>)
                (extractAnswer_st (property response ''answer''))"

definition initWithStudentFragment_st :: "jsobject \<Rightarrow> 's StatefulTub \<Rightarrow> 's \<Rightarrow> 's effect_st" where
  "initWithStudentFragment_st studentFragment this \<sigma> =
     extractConfig_st (property studentFragment ''config'') this \<sigma>"

definition initWithTeacherFragment_st :: "jsobject \<Rightarrow> 's StatefulTub \<Rightarrow> 's \<Rightarrow> 's effect_st" where
  "initWithTeacherFragment_st teacherFragment this \<sigma> =
     andThen_st (extractConfig_st (property teacherFragment ''config'') this \<sigma>)
                (extractAnswer_st (property teacherFragment ''answer''))"

text \<open>A schema of the first model, as one that leaves the state alone, and a tub with such schemas.\<close>

definition stateless :: "ZodSchema \<Rightarrow> 's StatefulSchema" where
  "stateless schema provided \<sigma> = (schema provided, \<sigma>)"

definition withStatelessSchemas :: "ResponseAreaTub \<Rightarrow> 's StatefulTub" where
  "withStatelessSchemas tub =
     \<lparr> responseType_st = responseType tub,
       canToggleLatexInStats_st = canToggleLatexInStats tub,
       delegatePreResponseText_st = delegatePreResponseText tub,
       delegatePostResponseText_st = delegatePostResponseText tub,
       delegateLivePreview_st = delegateLivePreview tub,
       delegateFeedback_st = delegateFeedback tub,
       delegateCheck_st = delegateCheck tub,
       delegateErrorMessage_st = delegateErrorMessage tub,
       displayInFlexContainer_st = displayInFlexContainer tub,
       displayWideInput_st = displayWideInput tub,
       displayAlwaysInColumn_st = displayAlwaysInColumn tub,
       configSchema_st = map_option stateless (configSchema tub),
       config_st = config tub,
       answerSchema_st = map_option stateless (answerSchema tub),
       answer_st = answer tub \<rparr>"



section \<open>Helper facts\<close>

lemma property_is_string_has_property:
  "property r k = JStr s \<Longrightarrow> has_property k r"
  by (auto simp: has_property_def property_def split: option.splits)



text \<open>
  On schemas that leave the state alone the two models agree: each initialisation path has
  the outcome and leaves the tub that the first model gives, and the state is untouched.
\<close>

lemma stateless_schemas_agree:
  "initWithDefault_st (withStatelessSchemas tub) \<sigma>
     = ((fst (initWithDefault tub), withStatelessSchemas (snd (initWithDefault tub))), \<sigma>)"
  "initWithResponse_st r (withStatelessSchemas tub) \<sigma>
     = ((fst (initWithResponse r tub), withStatelessSchemas (snd (initWithResponse r tub))), \<sigma>)"
  "initWithStudentFragment_st r (withStatelessSchemas tub) \<sigma>
     = ((fst (initWithStudentFragment r tub),
         withStatelessSchemas (snd (initWithStudentFragment r tub))), \<sigma>)"
  "initWithTeacherFragment_st r (withStatelessSchemas tub) \<sigma>
     = ((fst (initWithTeacherFragment r tub),
         withStatelessSchemas (snd (initWithTeacherFragment r tub))), \<sigma>)"
  by (auto simp: initWithDefault_st_def initWithDefault_def
        initWithResponse_st_def initWithResponse_def
        initWithStudentFragment_st_def initWithStudentFragment_def
        initWithTeacherFragment_st_def initWithTeacherFragment_def
        extractConfig_st_def extractConfig_def extractAnswer_st_def extractAnswer_def
        andThen_st_def andThen_def safeParse_st_def safeParse_def stateless_def
        withStatelessSchemas_def
        split: option.splits SafeParseReturn.splits)

lemma config_update_changes:
  "c \<noteq> config this \<Longrightarrow> this\<lparr>config := c\<rparr> \<noteq> this"
proof
  assume neq: "c \<noteq> config this" and eq: "this\<lparr>config := c\<rparr> = this"
  from eq have "config (this\<lparr>config := c\<rparr>) = config this" by simp
  with neq show False by simp
qed

section \<open>Dispatch\<close>

text \<open>
  Claim C1, as amended. With a payload present and a display mode other than peek,
  \<open>initialiseTub\<close> is \<open>initWithTeacherFragment\<close> on a payload whose \<^verbatim>\<open>__typename\<close> is
  \<^verbatim>\<open>'TeacherModularResponse'\<close>, \<open>initWithStudentFragment\<close> on one whose \<^verbatim>\<open>__typename\<close> is
  \<^verbatim>\<open>'StudentModularResponse'\<close>, and \<open>initWithResponse\<close> on every other payload.
  The student path never touches the answer, which is left as it was (\<^verbatim>\<open>undefined\<close> on a
  new tub); it assigns the normalised config when the declared config schema accepts the
  payload's config, and changes nothing on a variant that declares no config schema.
  On the teacher path and the generic path, when the answer schema accepts the payload's
  answer and the config schema, if one is declared, accepts its config, the answer is the
  normalised answer and the config is the normalised config, or what the tub held before
  on a variant that declares no config schema.
\<close>

theorem initialiseTub_dispatch:
  assumes "mode \<noteq> Peek"
  shows "(property r ''__typename'' = JStr ''TeacherModularResponse''
            \<longrightarrow> initialiseTub tub (Some r) mode = initWithTeacherFragment r tub)
       \<and> (property r ''__typename'' = JStr ''StudentModularResponse''
            \<longrightarrow> initialiseTub tub (Some r) mode = initWithStudentFragment r tub
              \<and> answer (snd (initialiseTub tub (Some r) mode)) = answer tub)
       \<and> (property r ''__typename'' \<noteq> JStr ''TeacherModularResponse''
            \<and> property r ''__typename'' \<noteq> JStr ''StudentModularResponse''
            \<longrightarrow> initialiseTub tub (Some r) mode = initWithResponse r tub)
       \<and> answer (snd (initWithStudentFragment r tub)) = answer tub
       \<and> (configSchema tub = None
            \<longrightarrow> initWithStudentFragment r tub = (Inr (), tub))
       \<and> (configSchema tub = Some cs \<and> safeParse cs (property r ''config'') = ParseSuccess c
            \<longrightarrow> initWithStudentFragment r tub = (Inr (), tub\<lparr>config := c\<rparr>))
       \<and> (configSchema tub = Some cs \<and> safeParse cs (property r ''config'') = ParseSuccess c
            \<and> answerSchema tub = Some as \<and> safeParse as (property r ''answer'') = ParseSuccess a
            \<longrightarrow> initWithTeacherFragment r tub = (Inr (), tub\<lparr>config := c, answer := a\<rparr>)
              \<and> initWithResponse r tub = (Inr (), tub\<lparr>config := c, answer := a\<rparr>))
       \<and> (configSchema tub = None
            \<and> answerSchema tub = Some as \<and> safeParse as (property r ''answer'') = ParseSuccess a
            \<longrightarrow> initWithTeacherFragment r tub = (Inr (), tub\<lparr>answer := a\<rparr>)
              \<and> initWithResponse r tub = (Inr (), tub\<lparr>answer := a\<rparr>))"
proof -
  from assms have m: "mode = Normal" by (cases mode) simp_all
  have teacher: "property r ''__typename'' = JStr ''TeacherModularResponse''
            \<longrightarrow> initialiseTub tub (Some r) mode = initWithTeacherFragment r tub"
    by (simp add: initialiseTub_def m property_is_string_has_property)
  have keeps_answer: "answer (snd (initWithStudentFragment r tub)) = answer tub"
    by (simp add: initWithStudentFragment_def extractConfig_def
          split: option.splits SafeParseReturn.splits)
  have student_is: "property r ''__typename'' = JStr ''StudentModularResponse''
            \<longrightarrow> initialiseTub tub (Some r) mode = initWithStudentFragment r tub"
    by (simp add: initialiseTub_def m property_is_string_has_property)
  with keeps_answer
  have student: "property r ''__typename'' = JStr ''StudentModularResponse''
            \<longrightarrow> initialiseTub tub (Some r) mode = initWithStudentFragment r tub
              \<and> answer (snd (initialiseTub tub (Some r) mode)) = answer tub"
    by simp
  have generic: "property r ''__typename'' \<noteq> JStr ''TeacherModularResponse''
            \<and> property r ''__typename'' \<noteq> JStr ''StudentModularResponse''
            \<longrightarrow> initialiseTub tub (Some r) mode = initWithResponse r tub"
    by (simp add: initialiseTub_def m)
  have no_config: "configSchema tub = None
            \<longrightarrow> initWithStudentFragment r tub = (Inr (), tub)"
    by (simp add: initWithStudentFragment_def extractConfig_def)
  have only_config: "configSchema tub = Some cs
            \<and> safeParse cs (property r ''config'') = ParseSuccess c
            \<longrightarrow> initWithStudentFragment r tub = (Inr (), tub\<lparr>config := c\<rparr>)"
    by (simp add: initWithStudentFragment_def extractConfig_def)
  have both: "configSchema tub = Some cs \<and> safeParse cs (property r ''config'') = ParseSuccess c
            \<and> answerSchema tub = Some as \<and> safeParse as (property r ''answer'') = ParseSuccess a
            \<longrightarrow> initWithTeacherFragment r tub = (Inr (), tub\<lparr>config := c, answer := a\<rparr>)
              \<and> initWithResponse r tub = (Inr (), tub\<lparr>config := c, answer := a\<rparr>)"
    by (simp add: initWithTeacherFragment_def initWithResponse_def extractConfig_def
          extractAnswer_def andThen_def)
  have only_answer: "configSchema tub = None
            \<and> answerSchema tub = Some as \<and> safeParse as (property r ''answer'') = ParseSuccess a
            \<longrightarrow> initWithTeacherFragment r tub = (Inr (), tub\<lparr>answer := a\<rparr>)
              \<and> initWithResponse r tub = (Inr (), tub\<lparr>answer := a\<rparr>)"
    by (simp add: initWithTeacherFragment_def initWithResponse_def extractConfig_def
          extractAnswer_def andThen_def)
  from teacher student generic keeps_answer no_config only_config both only_answer
  show ?thesis by blast
qed

theorem initialiseTub_dispatch_witness:
  "Normal \<noteq> Peek
   \<and> initialiseTub textTub (Some teacherPayload) Normal
       = (Inr (), textTub\<lparr>config := JObj [], answer := JStr ''forty-two''\<rparr>)
   \<and> initialiseTub textTub (Some studentPayload) Normal
       = (Inr (), textTub\<lparr>config := JObj []\<rparr>)
   \<and> answer (snd (initialiseTub textTub (Some studentPayload) Normal)) = JUndefined
   \<and> initialiseTub textTub (Some genericPayload) Normal
       = (Inr (), textTub\<lparr>config := JObj [], answer := JStr ''forty-two''\<rparr>)
   \<and> initialiseTub (newTub (Some ''TEXT'') None (Some stringSchema)) (Some studentPayload) Normal
       = (Inr (), newTub (Some ''TEXT'') None (Some stringSchema))
   \<and> initialiseTub (newTub (Some ''TEXT'') None (Some stringSchema)) (Some teacherPayload) Normal
       = (Inr (), (newTub (Some ''TEXT'') None (Some stringSchema))\<lparr>answer := JStr ''forty-two''\<rparr>)
   \<and> initialiseTub (newTub (Some ''TEXT'') None (Some stringSchema)) (Some genericPayload) Normal
       = (Inr (), (newTub (Some ''TEXT'') None (Some stringSchema))\<lparr>answer := JStr ''forty-two''\<rparr>)"
  using initialiseTub_dispatch [of Normal teacherPayload textTub emptyObjectSchema "JObj []"
          stringSchema "JStr ''forty-two''"]
        initialiseTub_dispatch [of Normal studentPayload textTub emptyObjectSchema "JObj []"
          stringSchema "JStr ''forty-two''"]
        initialiseTub_dispatch [of Normal genericPayload textTub emptyObjectSchema "JObj []"
          stringSchema "JStr ''forty-two''"]
        initialiseTub_dispatch [of Normal studentPayload
          "newTub (Some ''TEXT'') None (Some stringSchema)" emptyObjectSchema "JObj []"
          stringSchema "JStr ''forty-two''"]
        initialiseTub_dispatch [of Normal teacherPayload
          "newTub (Some ''TEXT'') None (Some stringSchema)" emptyObjectSchema "JObj []"
          stringSchema "JStr ''forty-two''"]
        initialiseTub_dispatch [of Normal genericPayload
          "newTub (Some ''TEXT'') None (Some stringSchema)" emptyObjectSchema "JObj []"
          stringSchema "JStr ''forty-two''"]
  by (simp add: textTub_def newTub_def teacherPayload_def studentPayload_def genericPayload_def
        property_def safeParse_def)

text \<open>
  The claim as stated fails: on a variant that declares no config schema a full teacher
  fragment is dispatched to \<open>initWithTeacherFragment\<close>, which returns normally, and the
  config is still \<^verbatim>\<open>undefined\<close>; and a teacher fragment whose answer the schema rejects
  makes the call throw with the answer still \<^verbatim>\<open>undefined\<close>.
\<close>

theorem initialiseTub_populated_counterexample:
  "initialiseTub (newTub (Some ''TEXT'') None (Some stringSchema)) (Some teacherPayload) Normal
     = (Inr (), (newTub (Some ''TEXT'') None (Some stringSchema))\<lparr>answer := JStr ''forty-two''\<rparr>)
   \<and> config (snd (initialiseTub (newTub (Some ''TEXT'') None (Some stringSchema))
                    (Some teacherPayload) Normal)) = JUndefined
   \<and> initialiseTub textTub
        (Some [(''__typename'', JStr ''TeacherModularResponse''), (''config'', JObj []),
               (''answer'', JNum 42)]) Normal
     = (Inl (Error ''Could not extract answer''), textTub\<lparr>config := JObj []\<rparr>)
   \<and> answer (snd (initialiseTub textTub
        (Some [(''__typename'', JStr ''TeacherModularResponse''), (''config'', JObj []),
               (''answer'', JNum 42)]) Normal)) = JUndefined"
  by (simp add: initialiseTub_def has_property_def property_def teacherPayload_def textTub_def
        newTub_def initWithTeacherFragment_def extractConfig_def extractAnswer_def andThen_def
        safeParse_def)

text \<open>
  Claim C2, as amended. With no payload, whatever the display mode, and with any payload
  in peek mode, \<open>initialiseTub\<close> is \<open>initWithDefault\<close>: it raises nothing and leaves the tub
  exactly as it was, without looking at the payload. On a newly constructed tub of any
  variant, config and answer are therefore \<^verbatim>\<open>undefined\<close> afterwards.
\<close>

theorem initialiseTub_default:
  "initialiseTub tub None mode = initWithDefault tub
   \<and> initialiseTub tub (Some r) Peek = initWithDefault tub
   \<and> initWithDefault tub = (Inr (), tub)
   \<and> config (snd (initialiseTub tub None mode)) = config tub
   \<and> answer (snd (initialiseTub tub None mode)) = answer tub
   \<and> config (snd (initialiseTub tub (Some r) Peek)) = config tub
   \<and> answer (snd (initialiseTub tub (Some r) Peek)) = answer tub
   \<and> config (snd (initialiseTub (newTub rt cs as) None mode)) = JUndefined
   \<and> answer (snd (initialiseTub (newTub rt cs as) None mode)) = JUndefined
   \<and> config (snd (initialiseTub (newTub rt cs as) (Some r) Peek)) = JUndefined
   \<and> answer (snd (initialiseTub (newTub rt cs as) (Some r) Peek)) = JUndefined"
  by (simp add: initialiseTub_def initWithDefault_def newTub_def)

text \<open>
  The claim as stated fails on a tub that already holds an answer: \<open>setAnswer\<close> stores one,
  and default initialisation, being empty, keeps it.
\<close>

theorem initialiseTub_default_counterexample:
  "setAnswer (JStr ''old'') textTub = (Inr (), textTub\<lparr>answer := JStr ''old''\<rparr>)
   \<and> answer (snd (initialiseTub (textTub\<lparr>answer := JStr ''old''\<rparr>) None Normal)) = JStr ''old''
   \<and> answer (snd (initialiseTub (textTub\<lparr>answer := JStr ''old''\<rparr>) (Some teacherPayload) Peek))
       = JStr ''old''"
  by (simp add: initialiseTub_def initWithDefault_def setAnswer_def extractAnswer_def
        textTub_def newTub_def safeParse_def)

section \<open>Round trip through validation\<close>

text \<open>
  Claim C3, as amended. On a tub whose \<open>responseType\<close> is a non-empty string, for a payload
  whose answer the answer schema accepts and normalises to a value other than \<^verbatim>\<open>undefined\<close>,
  and whose config the config schema accepts, \<open>initWithResponse\<close> followed by \<open>toResponse\<close>
  returns the object of \<open>responseType\<close>, the normalised config and the normalised answer.
  On a variant that declares no config schema the config field is what the tub held before.
\<close>

theorem initWithResponse_toResponse_roundtrip:
  assumes "responseType this = Some rt" and "rt \<noteq> []"
    and "answerSchema this = Some as"
    and "safeParse as (property r ''answer'') = ParseSuccess a'"
    and "a' \<noteq> JUndefined"
  shows "(configSchema this = Some cs \<and> safeParse cs (property r ''config'') = ParseSuccess c'
            \<longrightarrow> initWithResponse r this = (Inr (), this\<lparr>config := c', answer := a'\<rparr>)
              \<and> toResponse (snd (initWithResponse r this))
                  = Inr (JObj [(''responseType'', JStr rt), (''config'', c'), (''answer'', a')]))
       \<and> (configSchema this = None
            \<longrightarrow> initWithResponse r this = (Inr (), this\<lparr>answer := a'\<rparr>)
              \<and> toResponse (snd (initWithResponse r this))
                  = Inr (JObj [(''responseType'', JStr rt), (''config'', config this),
                               (''answer'', a')]))"
  using assms
  by (simp add: initWithResponse_def extractConfig_def extractAnswer_def andThen_def toResponse_def)

theorem initWithResponse_toResponse_roundtrip_witness:
  "responseType textTub = Some ''TEXT'' \<and> ''TEXT'' \<noteq> []
   \<and> safeParse emptyObjectSchema (JObj [(''extra'', JBool True)]) = ParseSuccess (JObj [])
   \<and> safeParse stringSchema (JStr ''forty-two'') = ParseSuccess (JStr ''forty-two'')
   \<and> toResponse (snd (initWithResponse
        [(''config'', JObj [(''extra'', JBool True)]), (''answer'', JStr ''forty-two'')] textTub))
      = Inr (JObj [(''responseType'', JStr ''TEXT''), (''config'', JObj []),
                   (''answer'', JStr ''forty-two'')])
   \<and> toResponse (snd (initWithResponse
        [(''config'', JObj [(''extra'', JBool True)]), (''answer'', JStr ''forty-two'')]
        (newTub (Some ''TEXT'') None (Some stringSchema))))
      = Inr (JObj [(''responseType'', JStr ''TEXT''), (''config'', JUndefined),
                   (''answer'', JStr ''forty-two'')])"
  using initWithResponse_toResponse_roundtrip [of textTub "''TEXT''" stringSchema
          "[(''config'', JObj [(''extra'', JBool True)]), (''answer'', JStr ''forty-two'')]"
          "JStr ''forty-two''" emptyObjectSchema "JObj []"]
        initWithResponse_toResponse_roundtrip
          [of "newTub (Some ''TEXT'') None (Some stringSchema)" "''TEXT''" stringSchema
          "[(''config'', JObj [(''extra'', JBool True)]), (''answer'', JStr ''forty-two'')]"
          "JStr ''forty-two''" emptyObjectSchema "JObj []"]
  by (simp add: textTub_def newTub_def property_def safeParse_def toResponse_def)

text \<open>
  The claim as stated fails for a pair the schemas accept when the answer schema accepts
  \<^verbatim>\<open>undefined\<close>, as \<^verbatim>\<open>z.string().optional()\<close> does: the normalised answer is \<^verbatim>\<open>undefined\<close>
  and \<open>toResponse\<close> throws instead of returning.
\<close>

theorem initWithResponse_toResponse_counterexample:
  "responseType (newTub (Some ''TEXT'') (Some emptyObjectSchema) (Some optionalStringSchema))
     = Some ''TEXT''
   \<and> safeParse emptyObjectSchema (JObj []) = ParseSuccess (JObj [])
   \<and> safeParse optionalStringSchema JUndefined = ParseSuccess JUndefined
   \<and> initWithResponse [(''config'', JObj []), (''answer'', JUndefined)]
        (newTub (Some ''TEXT'') (Some emptyObjectSchema) (Some optionalStringSchema))
      = (Inr (), (newTub (Some ''TEXT'') (Some emptyObjectSchema) (Some optionalStringSchema))
                   \<lparr>config := JObj []\<rparr>)
   \<and> toResponse (snd (initWithResponse [(''config'', JObj []), (''answer'', JUndefined)]
        (newTub (Some ''TEXT'') (Some emptyObjectSchema) (Some optionalStringSchema))))
      = Inl (Error ''Answer missing'')"
  by (simp add: initWithResponse_def extractConfig_def extractAnswer_def andThen_def toResponse_def
        newTub_def property_def safeParse_def)

section \<open>Guards of the serialisers\<close>

text \<open>
  Claim C4. When \<open>responseType\<close> is not set, each of \<open>toStudentFragment\<close>,
  \<open>toTeacherFragment\<close>, \<open>toResponse\<close> and \<open>toResponseMutation\<close> fails with
  \<^verbatim>\<open>'Response type missing'\<close>. Past that guard, when the answer is \<^verbatim>\<open>undefined\<close>,
  \<open>toTeacherFragment\<close>, \<open>toResponse\<close> and \<open>toResponseMutation\<close> fail with
  \<^verbatim>\<open>'Answer missing'\<close>, while \<open>toStudentFragment\<close> succeeds. Whatever \<open>toStudentFragment\<close>
  returns is an object with no \<^verbatim>\<open>answer\<close> property.
\<close>

theorem serialisers_guards:
  "(responseType this = None
      \<longrightarrow> toStudentFragment this = Inl (Error ''Response type missing'')
        \<and> toTeacherFragment this = Inl (Error ''Response type missing'')
        \<and> toResponse this = Inl (Error ''Response type missing'')
        \<and> toResponseMutation this = Inl (Error ''Response type missing''))
   \<and> (responseType this = Some rt \<and> rt \<noteq> [] \<and> answer this = JUndefined
      \<longrightarrow> toTeacherFragment this = Inl (Error ''Answer missing'')
        \<and> toResponse this = Inl (Error ''Answer missing'')
        \<and> toResponseMutation this = Inl (Error ''Answer missing'')
        \<and> toStudentFragment this
            = Inr (JObj [(''__typename'', JStr ''StudentModularResponse''),
                         (''responseType'', JStr rt), (''config'', config this)]))
   \<and> (toStudentFragment this = Inr out
      \<longrightarrow> (\<exists>ob. out = JObj ob \<and> \<not> has_property ''answer'' ob))"
  by (auto simp: toStudentFragment_def toTeacherFragment_def toResponse_def toResponseMutation_def
        has_property_def split: option.splits if_splits)

theorem serialisers_guards_witness:
  "responseType (newTub None None (Some stringSchema)) = None
   \<and> toStudentFragment (newTub None None (Some stringSchema)) = Inl (Error ''Response type missing'')
   \<and> toTeacherFragment (newTub None None (Some stringSchema)) = Inl (Error ''Response type missing'')
   \<and> toResponse (newTub None None (Some stringSchema)) = Inl (Error ''Response type missing'')
   \<and> toResponseMutation (newTub None None (Some stringSchema)) = Inl (Error ''Response type missing'')
   \<and> responseType textTub = Some ''TEXT'' \<and> answer textTub = JUndefined
   \<and> toTeacherFragment textTub = Inl (Error ''Answer missing'')
   \<and> toResponse textTub = Inl (Error ''Answer missing'')
   \<and> toResponseMutation textTub = Inl (Error ''Answer missing'')
   \<and> toStudentFragment textTub
        = Inr (JObj [(''__typename'', JStr ''StudentModularResponse''),
                     (''responseType'', JStr ''TEXT''), (''config'', JUndefined)])
   \<and> \<not> has_property ''answer'' [(''__typename'', JStr ''StudentModularResponse''),
                     (''responseType'', JStr ''TEXT''), (''config'', JUndefined)]"
  using serialisers_guards [of "newTub None None (Some stringSchema)" "''TEXT''"
          "JObj [(''__typename'', JStr ''StudentModularResponse''),
                 (''responseType'', JStr ''TEXT''), (''config'', JUndefined)]"]
        serialisers_guards [of textTub "''TEXT''"
          "JObj [(''__typename'', JStr ''StudentModularResponse''),
                 (''responseType'', JStr ''TEXT''), (''config'', JUndefined)]"]
  by (simp add: textTub_def newTub_def)

text \<open>
  Claim C9. A tub whose \<open>responseType\<close> is the empty string fails all four serialisers with
  \<^verbatim>\<open>'Response type missing'\<close>, as a tub with no response type does, also when its answer is set.
\<close>

theorem empty_responseType_is_missing:
  "responseType this = Some []
   \<Longrightarrow> toStudentFragment this = Inl (Error ''Response type missing'')
     \<and> toTeacherFragment this = Inl (Error ''Response type missing'')
     \<and> toResponse this = Inl (Error ''Response type missing'')
     \<and> toResponseMutation this = Inl (Error ''Response type missing'')"
  by (simp add: toStudentFragment_def toTeacherFragment_def toResponse_def toResponseMutation_def)

theorem empty_responseType_is_missing_witness:
  "responseType (newTub (Some []) None (Some stringSchema)\<lparr>answer := JStr ''a''\<rparr>) = Some []
   \<and> toStudentFragment (newTub (Some []) None (Some stringSchema)\<lparr>answer := JStr ''a''\<rparr>)
       = Inl (Error ''Response type missing'')
   \<and> toTeacherFragment (newTub (Some []) None (Some stringSchema)\<lparr>answer := JStr ''a''\<rparr>)
       = Inl (Error ''Response type missing'')
   \<and> toResponse (newTub (Some []) None (Some stringSchema)\<lparr>answer := JStr ''a''\<rparr>)
       = Inl (Error ''Response type missing'')
   \<and> toResponseMutation (newTub (Some []) None (Some stringSchema)\<lparr>answer := JStr ''a''\<rparr>)
       = Inl (Error ''Response type missing'')"
  using empty_responseType_is_missing
          [of "newTub (Some []) None (Some stringSchema)\<lparr>answer := JStr ''a''\<rparr>"]
  by (simp add: newTub_def)

text \<open>
  Claim C10. The answer guard tests for \<^verbatim>\<open>undefined\<close> only. On a tub whose \<open>responseType\<close>
  is a non-empty string and whose answer schema normalises the provided value to \<^verbatim>\<open>null\<close>,
  \<open>setAnswer\<close> stores \<^verbatim>\<open>null\<close>, and \<open>toTeacherFragment\<close>, \<open>toResponse\<close> and
  \<open>toResponseMutation\<close> then succeed with \<^verbatim>\<open>answer: null\<close>.
\<close>

theorem null_answer_is_serialised:
  assumes "responseType this = Some rt" and "rt \<noteq> []"
    and "answerSchema this = Some as"
    and "safeParse as provided = ParseSuccess JNull"
  shows "setAnswer provided this = (Inr (), this\<lparr>answer := JNull\<rparr>)
       \<and> toTeacherFragment (snd (setAnswer provided this))
           = Inr (JObj [(''__typename'', JStr ''TeacherModularResponse''),
                        (''responseType'', JStr rt), (''config'', config this), (''answer'', JNull)])
       \<and> toResponse (snd (setAnswer provided this))
           = Inr (JObj [(''responseType'', JStr rt), (''config'', config this), (''answer'', JNull)])
       \<and> toResponseMutation (snd (setAnswer provided this))
           = Inr (JObj [(''responseInput'',
                  JObj [(''responseType'', JStr rt), (''config'', config this),
                        (''answer'', JNull)])])"
  using assms
  by (simp add: setAnswer_def extractAnswer_def toTeacherFragment_def toResponse_def
        toResponseMutation_def)

theorem null_answer_is_serialised_witness:
  "safeParse nullSchema JNull = ParseSuccess JNull
   \<and> toTeacherFragment (snd (setAnswer JNull (newTub (Some ''TEXT'') None (Some nullSchema))))
       = Inr (JObj [(''__typename'', JStr ''TeacherModularResponse''),
                    (''responseType'', JStr ''TEXT''), (''config'', JUndefined), (''answer'', JNull)])
   \<and> toResponse (snd (setAnswer JNull (newTub (Some ''TEXT'') None (Some nullSchema))))
       = Inr (JObj [(''responseType'', JStr ''TEXT''), (''config'', JUndefined), (''answer'', JNull)])
   \<and> toResponseMutation (snd (setAnswer JNull (newTub (Some ''TEXT'') None (Some nullSchema))))
       = Inr (JObj [(''responseInput'',
              JObj [(''responseType'', JStr ''TEXT''), (''config'', JUndefined),
                    (''answer'', JNull)])])"
  using null_answer_is_serialised
          [of "newTub (Some ''TEXT'') None (Some nullSchema)" "''TEXT''" nullSchema JNull]
  by (simp add: newTub_def safeParse_def setAnswer_def extractAnswer_def toTeacherFragment_def
        toResponse_def toResponseMutation_def)

section \<open>Extraction\<close>

text \<open>
  Claim C5. When the tub declares a config schema and the provided value fails it,
  \<open>extractConfig\<close> fails with \<^verbatim>\<open>'Could not extract config'\<close>; when the provided value fails
  the answer schema, \<open>extractAnswer\<close> fails with \<^verbatim>\<open>'Could not extract answer'\<close>. In both
  cases the tub, and so its config and answer, is as it was before the call.
\<close>

theorem extract_failure_keeps_state:
  "(configSchema this = Some cs \<and> safeParse cs provided = ParseFailure
      \<longrightarrow> extractConfig provided this = (Inl (Error ''Could not extract config''), this))
   \<and> (answerSchema this = Some as \<and> safeParse as provided = ParseFailure
      \<longrightarrow> extractAnswer provided this = (Inl (Error ''Could not extract answer''), this))"
  by (simp add: extractConfig_def extractAnswer_def)

theorem extract_failure_keeps_state_witness:
  "safeParse emptyObjectSchema (JNum 7) = ParseFailure
   \<and> safeParse stringSchema (JNum 7) = ParseFailure
   \<and> extractConfig (JNum 7) (textTub\<lparr>config := JObj [], answer := JStr ''old''\<rparr>)
       = (Inl (Error ''Could not extract config''),
          textTub\<lparr>config := JObj [], answer := JStr ''old''\<rparr>)
   \<and> extractAnswer (JNum 7) (textTub\<lparr>config := JObj [], answer := JStr ''old''\<rparr>)
       = (Inl (Error ''Could not extract answer''),
          textTub\<lparr>config := JObj [], answer := JStr ''old''\<rparr>)"
  using extract_failure_keeps_state
          [of "textTub\<lparr>config := JObj [], answer := JStr ''old''\<rparr>" emptyObjectSchema "JNum 7"
              stringSchema]
  by (simp add: textTub_def newTub_def safeParse_def)

text \<open>
  Claim C6. On a tub that declares no config schema, \<open>extractConfig\<close> raises nothing and
  leaves every field of the tub as it was, whatever value is provided.
\<close>

theorem extractConfig_without_schema:
  "configSchema this = None \<Longrightarrow> extractConfig provided this = (Inr (), this)"
  by (simp add: extractConfig_def)

theorem extractConfig_without_schema_witness:
  "configSchema (newTub (Some ''TEXT'') None (Some stringSchema)) = None
   \<and> extractConfig (JObj [(''extra'', JBool True)]) (newTub (Some ''TEXT'') None (Some stringSchema))
       = (Inr (), newTub (Some ''TEXT'') None (Some stringSchema))"
  using extractConfig_without_schema
          [of "newTub (Some ''TEXT'') None (Some stringSchema)" "JObj [(''extra'', JBool True)]"]
  by (simp add: newTub_def)

section \<open>Initialisation paths\<close>




text \<open>
  Claim C8. Initialisation from a whole payload is not atomic. Whenever the config part of
  the payload validates and the answer part does not, \<open>initWithResponse\<close> and
  \<open>initWithTeacherFragment\<close> fail with \<^verbatim>\<open>'Could not extract answer'\<close> on a tub whose config
  is already the newly validated value; when that value differs from the config the tub
  held, the tub is not in its prior state. Such schemas and payloads exist.
\<close>

theorem init_not_atomic:
  assumes "configSchema this = Some cs"
    and "safeParse cs (property r ''config'') = ParseSuccess c"
    and "answerSchema this = Some as"
    and "safeParse as (property r ''answer'') = ParseFailure"
  shows "initWithResponse r this = (Inl (Error ''Could not extract answer''), this\<lparr>config := c\<rparr>)
       \<and> initWithTeacherFragment r this
           = (Inl (Error ''Could not extract answer''), this\<lparr>config := c\<rparr>)
       \<and> (c \<noteq> config this
            \<longrightarrow> snd (initWithResponse r this) \<noteq> this
              \<and> snd (initWithTeacherFragment r this) \<noteq> this)"
proof -
  from assms have run: "andThen (extractConfig (property r ''config'') this)
                          (extractAnswer (property r ''answer''))
                        = (Inl (Error ''Could not extract answer''), this\<lparr>config := c\<rparr>)"
    by (simp add: extractConfig_def extractAnswer_def andThen_def)
  then show ?thesis
    by (simp add: initWithResponse_def initWithTeacherFragment_def config_update_changes)
qed

theorem init_not_atomic_witness:
  "safeParse emptyObjectSchema (JObj [(''extra'', JBool True)]) = ParseSuccess (JObj [])
   \<and> safeParse stringSchema (JNum 42) = ParseFailure
   \<and> config textTub = JUndefined
   \<and> initWithResponse [(''config'', JObj [(''extra'', JBool True)]), (''answer'', JNum 42)] textTub
       = (Inl (Error ''Could not extract answer''), textTub\<lparr>config := JObj []\<rparr>)
   \<and> initWithTeacherFragment
         [(''config'', JObj [(''extra'', JBool True)]), (''answer'', JNum 42)] textTub
       = (Inl (Error ''Could not extract answer''), textTub\<lparr>config := JObj []\<rparr>)
   \<and> config (snd (initWithResponse
         [(''config'', JObj [(''extra'', JBool True)]), (''answer'', JNum 42)] textTub)) = JObj []
   \<and> snd (initWithResponse
         [(''config'', JObj [(''extra'', JBool True)]), (''answer'', JNum 42)] textTub) \<noteq> textTub
   \<and> snd (initWithTeacherFragment
         [(''config'', JObj [(''extra'', JBool True)]), (''answer'', JNum 42)] textTub) \<noteq> textTub"
  using init_not_atomic [of textTub emptyObjectSchema
          "[(''config'', JObj [(''extra'', JBool True)]), (''answer'', JNum 42)]" "JObj []"
          stringSchema]
  by (simp add: textTub_def newTub_def property_def safeParse_def)

end
